theory Spec2Isabelle
  imports Main "HOL-Library.Sublist"
begin

section \<open>Data contracts (packages/components/src/types.ts)\<close>

text \<open>
  \<^verbatim>\<open>AutocompleteItem\<close> is an identifier plus an open set of further fields: an extensible
  record. \<^verbatim>\<open>SearchItem\<close> extends it; the optional fields are options. The field
  \<^verbatim>\<open>id\<close> is named \<open>item_id\<close> and \<^verbatim>\<open>value\<close> is named \<open>item_value\<close> (both names are taken in
  Isabelle). Strings are lists of code units in the range 0..255.
\<close>

record AutocompleteItem =
  item_id :: string

record SearchItem = AutocompleteItem +
  label :: string
  item_value :: string
  category :: "string option"
  description :: "string option"


section \<open>The mock search service (packages/components/src/services/api.ts)\<close>

definition mk :: "string \<Rightarrow> string \<Rightarrow> string \<Rightarrow> string \<Rightarrow> string \<Rightarrow> SearchItem" where
  "mk i l v c d =
     \<lparr>item_id = i, label = l, item_value = v, category = Some c, description = Some d\<rparr>"

definition MOCK_ITEMS :: "SearchItem list" where
  "MOCK_ITEMS =
     [mk ''1'' ''React'' ''react'' ''Library''
        ''A JavaScript library for building user interfaces'',
      mk ''2'' ''Vue'' ''vue'' ''Framework'' ''The Progressive JavaScript Framework'',
      mk ''3'' ''Angular'' ''angular'' ''Framework''
        ''Platform for building mobile and desktop web applications'',
      mk ''4'' ''Svelte'' ''svelte'' ''Framework'' ''Cybernetically enhanced web apps'',
      mk ''5'' ''Next.js'' ''nextjs'' ''Framework'' ''The React Framework for Production'',
      mk ''6'' ''TypeScript'' ''typescript'' ''Language'' ''Typed superset of JavaScript'',
      mk ''7'' ''TailwindCSS'' ''tailwindcss'' ''CSS Framework''
        ''Utility-first CSS framework'',
      mk ''8'' ''Vite'' ''vite'' ''Build Tool'' ''Next Generation Frontend Tooling'']"

text \<open>
  \<^verbatim>\<open>String.prototype.toLowerCase\<close> on code units 0..255: the letters A..Z and the
  Latin-1 capitals 0xC0..0xDE (without the multiplication sign 0xD7) move up by 32.
\<close>

definition toLowerCase_char :: "char \<Rightarrow> char" where
  "toLowerCase_char c =
     (let n = (of_char c :: nat)
      in if (65 \<le> n \<and> n \<le> 90) \<or> (192 \<le> n \<and> n \<le> 222 \<and> n \<noteq> 215)
         then char_of (n + 32) else c)"

definition toLowerCase :: "string \<Rightarrow> string" where
  "toLowerCase s = map toLowerCase_char s"

text \<open>
  \<^verbatim>\<open>String.prototype.trim\<close> strips white space and line terminators at both ends;
  among the code units 0..255 these are TAB, LF, VT, FF, CR, SP and NBSP.
\<close>

definition isWhiteSpace :: "char \<Rightarrow> bool" where
  "isWhiteSpace c = ((of_char c :: nat) \<in> {9, 10, 11, 12, 13, 32, 160})"

definition trim :: "string \<Rightarrow> string" where
  "trim s = rev (dropWhile isWhiteSpace (rev (dropWhile isWhiteSpace s)))"

text \<open>\<^verbatim>\<open>String.prototype.includes\<close>: the pattern occurs at some position of the text
  (\<open>includes\<close> is a keyword of Isabelle, hence the longer name).\<close>

fun includesStr :: "string \<Rightarrow> string \<Rightarrow> bool" where
  "includesStr [] p = (p = [])"
| "includesStr (c # cs) p = (prefix p (c # cs) \<or> includesStr cs p)"

text \<open>
  A template literal prints a missing (\<^verbatim>\<open>undefined\<close>) field as the text
  \<^verbatim>\<open>undefined\<close>; the description alone is guarded by \<^verbatim>\<open>|| ''\<close>, which also maps the
  empty string to itself.
\<close>

definition searchableText :: "SearchItem \<Rightarrow> string" where
  "searchableText item =
     toLowerCase (label item @ '' '' @ item_value item @ '' ''
       @ (case category item of None \<Rightarrow> ''undefined'' | Some c \<Rightarrow> c) @ '' ''
       @ (case description item of None \<Rightarrow> [] | Some d \<Rightarrow> d))"

text \<open>
  \<^verbatim>\<open>Math.min(Math.max(Number(limit) || 10, 1), 100)\<close>: the limit is 10 when the
  argument is omitted (the parameter's default) and also when it is 0, since 0 is falsy.
\<close>

definition validLimit :: "int option \<Rightarrow> int" where
  "validLimit limit =
     (let l = (case limit of None \<Rightarrow> 10 | Some n \<Rightarrow> n);
          l' = (if l = 0 then 10 else l)
      in min (max l' 1) 100)"

text \<open>
  \<^verbatim>\<open>searchItems\<close>, the value its promise resolves to (the simulated latency of 100 ms
  is left to the environment that settles the promise).
\<close>

definition searchItems :: "string \<Rightarrow> int option \<Rightarrow> SearchItem list" where
  "searchItems query limit =
     (let sanitizedQuery = toLowerCase (trim query)
      in if sanitizedQuery = [] then []
         else take (nat (validLimit limit))
                (filter (\<lambda>item. includesStr (searchableText item) sanitizedQuery) MOCK_ITEMS))"


section \<open>The Typeahead engine (packages/components/src/typeahead/Typeahead.tsx)\<close>

subsection \<open>Configuration\<close>

text \<open>
  The result limit is a JavaScript number: an integer or \<^verbatim>\<open>NaN\<close>, the one value on
  which \<^verbatim>\<open>Math.min\<close> and \<^verbatim>\<open>Math.max\<close> do not compare (they return \<^verbatim>\<open>NaN\<close> as soon
  as an argument is \<^verbatim>\<open>NaN\<close>).
\<close>

datatype jsNumber = Num int | NaN

fun Math_min :: "jsNumber \<Rightarrow> jsNumber \<Rightarrow> jsNumber" where
  "Math_min (Num a) (Num b) = Num (min a b)"
| "Math_min NaN b = NaN"
| "Math_min a NaN = NaN"

fun Math_max :: "jsNumber \<Rightarrow> jsNumber \<Rightarrow> jsNumber" where
  "Math_max (Num a) (Num b) = Num (max a b)"
| "Math_max NaN b = NaN"
| "Math_max a NaN = NaN"

text \<open>A limit inside the documented range 1..100.\<close>

fun inRange :: "jsNumber \<Rightarrow> bool" where
  "inRange (Num n) = (1 \<le> n \<and> n \<le> 100)"
| "inRange NaN = False"

text \<open>
  The props: the result limit, the debounce delay and the minimum query length (the last
  two at integer values), and whether the optional callbacks \<^verbatim>\<open>onSelect\<close> and
  \<^verbatim>\<open>onError\<close> are supplied. The fetch strategy (\<^verbatim>\<open>onFetch\<close> or the default) is the
  environment: the model records each call and the environment settles it later.
\<close>

record props =
  maxResults :: jsNumber
  debounceMs :: int
  minQueryLength :: int
  hasOnSelect :: bool
  hasOnError :: bool

definition DEBOUNCE_MS :: int where
  "DEBOUNCE_MS = 300"

definition MIN_QUERY_LENGTH :: int where
  "MIN_QUERY_LENGTH = 1"

definition MAX_RESULTS :: int where
  "MAX_RESULTS = 10"

definition defaultProps :: props where
  "defaultProps =
     \<lparr>maxResults = Num MAX_RESULTS, debounceMs = DEBOUNCE_MS, minQueryLength = MIN_QUERY_LENGTH,
      hasOnSelect = True, hasOnError = True\<rparr>"

definition validMaxResults :: "props \<Rightarrow> jsNumber" where
  "validMaxResults p = Math_max (Num 1) (Math_min (maxResults p) (Num 100))"

definition validDebounceMs :: "props \<Rightarrow> int" where
  "validDebounceMs p = max 0 (debounceMs p)"

definition validMinQueryLength :: "props \<Rightarrow> int" where
  "validMinQueryLength p = max 0 (minQueryLength p)"

subsection \<open>State\<close>

text \<open>
  A thrown value is an \<^verbatim>\<open>Error\<close> object (given by its message) or anything else
  (given by what \<^verbatim>\<open>String(err)\<close> prints); \<open>toError\<close> is
  \<^verbatim>\<open>err instanceof Error ? err : new Error(String(err))\<close>.
\<close>

datatype jsError = Error string

datatype thrown = ThrownError jsError | ThrownOther string

fun toError :: "thrown \<Rightarrow> jsError" where
  "toError (ThrownError e) = e"
| "toError (ThrownOther v) = Error v"

datatype 'a outcome = Resolved "'a list" | Rejected thrown

datatype key = ArrowDown | ArrowUp | Enter | Escape | OtherKey

text \<open>
  The six \<^verbatim>\<open>useState\<close> cells and the timer ref, followed by the environment the
  component runs in: the clock, the pending timeouts of the event loop (handle, due
  time, the value captured by the callback), the next timer handle, the fetch calls
  that are not settled yet (numbered by their position in \<open>fetchCalls\<close>), and the
  logs of the calls made to the fetch strategy, to \<^verbatim>\<open>onSelect\<close>, to
  \<^verbatim>\<open>onError\<close> and to \<^verbatim>\<open>console.error\<close>, and whether the input element holds the
  keyboard focus.
\<close>

record 'a engine =
  query :: string
  results :: "'a AutocompleteItem_scheme list"
  isOpen :: bool
  isLoading :: bool
  selectedIndex :: int
  error :: "string option"
  debounceTimer :: "nat option"
  now :: int
  timers :: "(nat \<times> int \<times> string) list"
  nextTimer :: nat
  inflight :: "nat list"
  fetchCalls :: "(string \<times> jsNumber) list"
  selectCalls :: "'a AutocompleteItem_scheme list"
  errorCalls :: "jsError list"
  consoleErrors :: "jsError list"
  inputFocused :: bool

definition initial :: "'a engine" where
  "initial =
     \<lparr>query = [], results = [], isOpen = False, isLoading = False, selectedIndex = - 1,
      error = None, debounceTimer = None, now = 0, timers = [], nextTimer = 1,
      inflight = [], fetchCalls = [], selectCalls = [], errorCalls = [],
      consoleErrors = [], inputFocused = False\<rparr>"

subsection \<open>Handlers\<close>

text \<open>
  \<^verbatim>\<open>handleSearch\<close> up to its \<^verbatim>\<open>await\<close>: the guard on the query length, or the
  call of the fetch strategy with the clamped limit.
\<close>

definition handleSearch :: "props \<Rightarrow> string \<Rightarrow> 'a engine \<Rightarrow> 'a engine" where
  "handleSearch p searchQuery s =
     (if int (length searchQuery) < validMinQueryLength p
      then s\<lparr>results := [], isOpen := False, error := None\<rparr>
      else s\<lparr>isLoading := True, error := None,
             fetchCalls := fetchCalls s @ [(searchQuery, validMaxResults p)],
             inflight := inflight s @ [length (fetchCalls s)]\<rparr>)"

text \<open>
  \<^verbatim>\<open>handleSearch\<close> after its \<^verbatim>\<open>await\<close>, for call number \<open>r\<close>: the \<^verbatim>\<open>try\<close> branch
  when the promise resolved, the \<^verbatim>\<open>catch\<close> branch when it rejected (or the strategy
  threw), then \<^verbatim>\<open>finally\<close>.
\<close>

definition handleSearch_settled ::
  "props \<Rightarrow> nat \<Rightarrow> 'a AutocompleteItem_scheme outcome \<Rightarrow> 'a engine \<Rightarrow> 'a engine" where
  "handleSearch_settled p r out s =
     (let s1 = (case out of
                  Resolved items \<Rightarrow>
                    s\<lparr>results := items, isOpen := (0 < length items), selectedIndex := - 1\<rparr>
                | Rejected err \<Rightarrow>
                    s\<lparr>error := Some ''Failed to fetch search results'',
                      consoleErrors := consoleErrors s @ [toError err],
                      results := [],
                      errorCalls := (if hasOnError p then errorCalls s @ [toError err]
                                     else errorCalls s)\<rparr>)
      in s1\<lparr>isLoading := False, inflight := remove1 r (inflight s1)\<rparr>)"

definition clearTimeout :: "nat \<Rightarrow> 'a engine \<Rightarrow> 'a engine" where
  "clearTimeout h s = s\<lparr>timers := filter (\<lambda>(h', d, v). h' \<noteq> h) (timers s)\<rparr>"

text \<open>
  \<^verbatim>\<open>setTimeout(() => handleSearch(value), delay)\<close>; the handle it returns is the
  old \<open>nextTimer\<close>.
\<close>

definition setTimeout :: "string \<Rightarrow> int \<Rightarrow> 'a engine \<Rightarrow> 'a engine" where
  "setTimeout v delay s =
     s\<lparr>timers := timers s @ [(nextTimer s, now s + delay, v)], nextTimer := Suc (nextTimer s)\<rparr>"

definition handleInputChange :: "props \<Rightarrow> string \<Rightarrow> 'a engine \<Rightarrow> 'a engine" where
  "handleInputChange p v s =
     (let s1 = s\<lparr>query := v\<rparr>;
          s2 = (case debounceTimer s1 of Some h \<Rightarrow> clearTimeout h s1 | None \<Rightarrow> s1);
          h = nextTimer s2
      in (setTimeout v (validDebounceMs p) s2)\<lparr>debounceTimer := Some h\<rparr>)"

definition handleSelectItem ::
  "props \<Rightarrow> 'a AutocompleteItem_scheme \<Rightarrow> 'a engine \<Rightarrow> 'a engine" where
  "handleSelectItem p item s =
     s\<lparr>query := item_id item, isOpen := False, results := [], selectedIndex := - 1,
       selectCalls := (if hasOnSelect p then selectCalls s @ [item] else selectCalls s)\<rparr>"

text \<open>
  In the \<^verbatim>\<open>Enter\<close> case \<^verbatim>\<open>results[selectedIndex]\<close> is an object, hence truthy, when
  the index is in range, and \<^verbatim>\<open>undefined\<close> otherwise.
\<close>

definition handleKeyDown :: "props \<Rightarrow> key \<Rightarrow> 'a engine \<Rightarrow> 'a engine" where
  "handleKeyDown p k s =
     (case k of
        ArrowDown \<Rightarrow>
          s\<lparr>selectedIndex :=
              (if selectedIndex s < int (length (results s)) - 1 then selectedIndex s + 1
               else selectedIndex s)\<rparr>
      | ArrowUp \<Rightarrow>
          s\<lparr>selectedIndex := (if selectedIndex s > 0 then selectedIndex s - 1 else - 1)\<rparr>
      | Enter \<Rightarrow>
          (if selectedIndex s \<ge> 0 \<and> selectedIndex s < int (length (results s))
           then handleSelectItem p (results s ! nat (selectedIndex s)) s
           else s)
      | Escape \<Rightarrow> s\<lparr>isOpen := False, selectedIndex := - 1\<rparr>
      | OtherKey \<Rightarrow> s)"

text \<open>
  The input's \<^verbatim>\<open>onFocus\<close> handler, \<^verbatim>\<open>() => query && setIsOpen(true)\<close>. It reads the
  query of the render it was created in, which is passed as \<open>renderedQuery\<close>.
\<close>

definition onFocus :: "string \<Rightarrow> 'a engine \<Rightarrow> 'a engine" where
  "onFocus renderedQuery s = (if renderedQuery \<noteq> [] then s\<lparr>isOpen := True\<rparr> else s)"

text \<open>
  \<^verbatim>\<open>inputRef.current?.focus()\<close>: nothing happens when the input holds the focus;
  otherwise it takes the focus and its focus event runs \<open>onFocus\<close> at once, inside the
  handler that called \<^verbatim>\<open>focus()\<close>, on top of the state updates queued so far.
\<close>

definition focusInput :: "string \<Rightarrow> 'a engine \<Rightarrow> 'a engine" where
  "focusInput renderedQuery s =
     (if inputFocused s then s else onFocus renderedQuery (s\<lparr>inputFocused := True\<rparr>))"

text \<open>
  \<^verbatim>\<open>handleClear\<close>: the four state updates, then \<^verbatim>\<open>focus()\<close>. The \<open>onFocus\<close> handler
  that \<^verbatim>\<open>focus()\<close> may run still holds the query from before the clear.
\<close>

definition handleClear :: "'a engine \<Rightarrow> 'a engine" where
  "handleClear s =
     focusInput (query s)
       (s\<lparr>query := [], results := [], isOpen := False, selectedIndex := - 1\<rparr>)"

subsection \<open>The event loop\<close>

text \<open>
  Time passes to \<open>t\<close>: the timeouts that are due run, in the order they were set
  (all have the same delay, so this is the order of their due times).
\<close>

definition advance :: "props \<Rightarrow> int \<Rightarrow> 'a engine \<Rightarrow> 'a engine" where
  "advance p t s =
     foldl (\<lambda>s' (h, d, v). handleSearch p v s')
       (s\<lparr>now := max (now s) t, timers := filter (\<lambda>(h, d, v). \<not> d \<le> t) (timers s)\<rparr>)
       (filter (\<lambda>(h, d, v). d \<le> t) (timers s))"

text \<open>
  Result \<open>i\<close> is on the screen (and can be hovered or clicked) when the dropdown is
  open, nothing is loading and \<open>i\<close> is a position of the result list.
\<close>

definition rendered :: "nat \<Rightarrow> 'a engine \<Rightarrow> bool" where
  "rendered i s = (isOpen s \<and> \<not> isLoading s \<and> i < length (results s))"

datatype 'a event =
    Tick int
  | Change string
  | KeyDown key
  | MouseEnter nat
  | Click nat
  | ClearClick
  | Focus
  | Blur
  | ClickOutside
  | Settle nat "'a outcome"

text \<open>
  One callback of the event loop. The clear button exists while the query is not
  empty; the outside-click listener exists while the dropdown is open; a promise
  settles once. \<open>Focus\<close> is the input receiving the focus from the user (its
  \<open>onFocus\<close> runs with the current query) and \<open>Blur\<close> is the input losing it, as it
  does when the mouse goes down on the clear button.
\<close>

fun step :: "props \<Rightarrow> 'a AutocompleteItem_scheme event \<Rightarrow> 'a engine \<Rightarrow> 'a engine" where
  "step p (Tick t) s = advance p t s"
| "step p (Change v) s = handleInputChange p v s"
| "step p (KeyDown k) s = handleKeyDown p k s"
| "step p (MouseEnter i) s = (if rendered i s then s\<lparr>selectedIndex := int i\<rparr> else s)"
| "step p (Click i) s = (if rendered i s then handleSelectItem p (results s ! i) s else s)"
| "step p ClearClick s = (if query s \<noteq> [] then handleClear s else s)"
| "step p Focus s = onFocus (query s) (s\<lparr>inputFocused := True\<rparr>)"
| "step p Blur s = s\<lparr>inputFocused := False\<rparr>"
| "step p ClickOutside s = (if isOpen s then s\<lparr>isOpen := False\<rparr> else s)"
| "step p (Settle r out) s =
     (if r \<in> set (inflight s) then handleSearch_settled p r out s else s)"

fun run :: "props \<Rightarrow> 'a AutocompleteItem_scheme event list \<Rightarrow> 'a engine \<Rightarrow> 'a engine" where
  "run p [] s = s"
| "run p (e # es) s = run p es (step p e s)"

text \<open>A keystroke at time \<open>t\<close> that leaves the input holding \<open>v\<close>, and a list of them.\<close>

fun keystrokes :: "props \<Rightarrow> (int \<times> string) list \<Rightarrow> 'a engine \<Rightarrow> 'a engine" where
  "keystrokes p [] s = s"
| "keystrokes p ((t, v) # ks) s = keystrokes p ks (handleInputChange p v (advance p t s))"

text \<open>
  A burst with delay \<open>d\<close> after time \<open>t0\<close>: the times do not decrease and each
  keystroke comes less than \<open>d\<close> after the one before it.
\<close>

fun burst :: "int \<Rightarrow> int \<Rightarrow> (int \<times> string) list \<Rightarrow> bool" where
  "burst d t0 [] = True"
| "burst d t0 ((t, v) # ks) = (t0 \<le> t \<and> t - t0 < d \<and> burst d t ks)"


section \<open>Reference definitions and fixtures\<close>

text \<open>
  The mock search as the specification words it, to be compared with \<open>searchItems\<close>:
  the items whose concatenated text contains the trimmed, lower-cased query
  (\<open>sublist\<close> is "occurs as a contiguous part"), case-insensitively, in the order of the
  mock data, cut to the limit clamped into 1..100 (10 when none is given); nothing for a
  query that is empty after trimming.
\<close>

definition searchItems_spec :: "string \<Rightarrow> int option \<Rightarrow> SearchItem list" where
  "searchItems_spec q limit =
     (if trim q = [] then []
      else take (nat (min 100 (max 1 (case limit of None \<Rightarrow> 10 | Some n \<Rightarrow> n))))
             (filter (\<lambda>item. sublist (toLowerCase (trim q)) (searchableText item))
                MOCK_ITEMS))"

text \<open>The two items the component tests answer with (src/components/Typeahead.test.tsx).\<close>

definition react :: SearchItem where
  "react = mk ''1'' ''React'' ''react'' ''Library'' ''A JS library''"

definition vue :: SearchItem where
  "vue = mk ''2'' ''Vue'' ''vue'' ''Framework'' ''Another framework''"

type_synonym searchEngine = "unit SearchItem_ext engine"

text \<open>
  The user types \<open>r\<close>, the debounce timer fires and fetch 0 is issued; the user types
  \<open>re\<close>, the timer fires and fetch 1 is issued while fetch 0 is still pending.
\<close>

definition twoPending :: searchEngine where
  "twoPending = run defaultProps [Change ''r'', Tick 300, Change ''re'', Tick 600] initial"

text \<open>
  A search for \<open>a\<close> has shown two results and the second one is highlighted.
\<close>

definition secondHighlighted :: searchEngine where
  "secondHighlighted =
     run defaultProps
       [Change ''a'', Tick 300, Settle 0 (Resolved [react, vue]),
        KeyDown ArrowDown, KeyDown ArrowDown] initial"


text \<open>
  From \<open>secondHighlighted\<close> the user types \<open>ab\<close>, the timer fires, and the fetch
  (call number 1) rejects with a network error.
\<close>

definition failedFetch :: searchEngine where
  "failedFetch =
     run defaultProps
       [Change ''ab'', Tick 700, Settle 1 (Rejected (ThrownError (Error ''Network error'')))]
       secondHighlighted"

text \<open>
  The user clicks into the input, types \<open>a\<close> and sees two results; then the mouse goes
  down on the clear button, which is outside the input and the result list: the
  outside-click listener closes the dropdown and the input loses the focus.
\<close>

definition mouseDownOnClear :: searchEngine where
  "mouseDownOnClear =
     run defaultProps
       [Focus, Change ''a'', Tick 300, Settle 0 (Resolved [react, vue]), ClickOutside, Blur]
       initial"

text \<open>
  At most one timeout is pending, and it is the one the timer ref holds.
\<close>

definition debounce_inv :: "'a engine \<Rightarrow> bool" where
  "debounce_inv s =
     (case timers s of
        [] \<Rightarrow> True
      | [(h, d, v)] \<Rightarrow> debounceTimer s = Some h
      | _ \<Rightarrow> False)"


section \<open>Evaluation and basic facts\<close>

lemmas engine_defs =
  initial_def defaultProps_def handleInputChange_def advance_def handleSearch_def
  handleSearch_settled_def handleKeyDown_def handleSelectItem_def handleClear_def
  onFocus_def focusInput_def setTimeout_def clearTimeout_def rendered_def validDebounceMs_def
  validMinQueryLength_def
  validMaxResults_def DEBOUNCE_MS_def MIN_QUERY_LENGTH_def MAX_RESULTS_def

lemma twoPending_inflight: "inflight twoPending = [0, 1]"
  by (simp add: twoPending_def engine_defs)

lemma secondHighlighted_fields:
  "results secondHighlighted = [react, vue]" "selectedIndex secondHighlighted = 1"
  "isOpen secondHighlighted" "\<not> isLoading secondHighlighted"
  "selectCalls secondHighlighted = []" "error secondHighlighted = None"
  by (simp_all add: secondHighlighted_def engine_defs)

lemma failedFetch_fields:
  "results failedFetch = []" "selectedIndex failedFetch = 1" "isOpen failedFetch"
  "\<not> isLoading failedFetch" "error failedFetch = Some ''Failed to fetch search results''"
  "errorCalls failedFetch = [Error ''Network error'']" "query failedFetch = ''ab''"
  by (simp_all add: failedFetch_def secondHighlighted_def engine_defs)

lemma settled_resolved_results: "results (handleSearch_settled p r (Resolved xs) s) = xs"
  by (simp add: handleSearch_settled_def)

lemma settled_inflight: "inflight (handleSearch_settled p r out s) = remove1 r (inflight s)"
  by (cases out) (simp_all add: handleSearch_settled_def Let_def)


section \<open>Responses of overlapping fetches\<close>

text \<open>
  C1, as stated: when fetch A is issued, fetch B is issued before A resolves, and A
  resolves after B's result has been applied, the result set stays B's items. This fails.
  In \<open>twoPending\<close> call 0 (for \<open>r\<close>) and call 1 (for \<open>re\<close>) are both pending; call 1
  resolves with \<open>[react]\<close>, which is shown, and then call 0 resolves with \<open>[vue]\<close>, which
  replaces it.
\<close>

theorem stale_response_replaces_newer:
  "fetchCalls twoPending = [(''r'', Num 10), (''re'', Num 10)]
   \<and> results (step defaultProps (Settle 1 (Resolved [react])) twoPending) = [react]
   \<and> results (step defaultProps (Settle 0 (Resolved [vue]))
        (step defaultProps (Settle 1 (Resolved [react])) twoPending)) = [vue]
   \<and> [vue] \<noteq> [react]"
  by (simp add: twoPending_def engine_defs react_def vue_def mk_def)

text \<open>
  C1, amended: every pending fetch that resolves replaces the result set with its own
  items, whatever the order of issue. With calls \<open>a\<close> and \<open>b\<close> both pending, after
  \<open>b\<close> resolves the result set is \<open>b\<close>'s items, and after \<open>a\<close> resolves later it is
  \<open>a\<close>'s items: the response that settles last is the one displayed.
\<close>

theorem last_settled_response_wins:
  assumes "a \<in> set (inflight s)" and "b \<in> set (inflight s)" and "a \<noteq> b"
  shows "results (step p (Settle b (Resolved itemsB)) s) = itemsB
       \<and> results (step p (Settle a (Resolved itemsA)) (step p (Settle b (Resolved itemsB)) s))
           = itemsA"
proof -
  have "a \<in> set (inflight (handleSearch_settled p b (Resolved itemsB) s))"
    using assms by (simp add: settled_inflight)
  with assms show ?thesis
    by (simp add: settled_resolved_results)
qed

theorem last_settled_response_wins_witness:
  "0 \<in> set (inflight twoPending) \<and> 1 \<in> set (inflight twoPending) \<and> (0::nat) \<noteq> 1
   \<and> results (step defaultProps (Settle 0 (Resolved [vue]))
        (step defaultProps (Settle 1 (Resolved [react])) twoPending)) = [vue]"
proof -
  have h0: "0 \<in> set (inflight twoPending)" and h1: "1 \<in> set (inflight twoPending)"
    by (simp_all add: twoPending_inflight)
  have h2: "(0::nat) \<noteq> 1" by simp
  show ?thesis
    using h0 h1 last_settled_response_wins [OF h0 h1 h2, of defaultProps "[react]" "[vue]"]
    by simp
qed


section \<open>The highlighted index\<close>

text \<open>
  The arrow keys keep the index between \<open>-1\<close> and the last position of the result list,
  and no handler moves it below \<open>-1\<close>.
\<close>

lemma arrows_keep_bounds:
  assumes "- 1 \<le> selectedIndex s" and "selectedIndex s < max 0 (int (length (results s)))"
    and "k = ArrowDown \<or> k = ArrowUp"
  shows "- 1 \<le> selectedIndex (handleKeyDown p k s)
       \<and> selectedIndex (handleKeyDown p k s) < max 0 (int (length (results s)))
       \<and> results (handleKeyDown p k s) = results s"
  using assms by (auto simp: handleKeyDown_def)

lemma handleSearch_selectedIndex: "selectedIndex (handleSearch p q s) = selectedIndex s"
  by (simp add: handleSearch_def)

lemma foldl_handleSearch_selectedIndex:
  "selectedIndex (foldl (\<lambda>s' (h, d, v). handleSearch p v s') s ts) = selectedIndex s"
  by (induction ts arbitrary: s) (auto simp: handleSearch_selectedIndex)

lemma step_selectedIndex_lower:
  assumes "- 1 \<le> selectedIndex s"
  shows "- 1 \<le> selectedIndex (step p e s)"
proof (cases e)
  case (Tick t)
  then show ?thesis
    using assms by (simp add: advance_def foldl_handleSearch_selectedIndex)
next
  case (Change v)
  then show ?thesis
    using assms
    by (simp add: handleInputChange_def setTimeout_def clearTimeout_def Let_def
        split: option.splits)
next
  case (KeyDown k)
  then show ?thesis
    using assms by (cases k) (simp_all add: handleKeyDown_def handleSelectItem_def)
next
  case (Settle r out)
  then show ?thesis
    using assms by (cases out) (simp_all add: handleSearch_settled_def)
qed (use assms in
      \<open>simp_all add: handleSelectItem_def handleClear_def focusInput_def onFocus_def\<close>)

lemma run_selectedIndex_lower:
  "- 1 \<le> selectedIndex s \<Longrightarrow> - 1 \<le> selectedIndex (run p es s)"
  by (induction es arbitrary: s) (simp_all add: step_selectedIndex_lower)

text \<open>
  C2: the highlighted index is \<open>-1\<close> or a position of the current result list in every
  reachable state, and it is reset whenever the result list changes. The code resets it
  when a fetch succeeds, on selection and on clear, but not when the guard on the query
  length or a failed fetch empties the list. In \<open>secondHighlighted\<close> the list has two
  items and the index is 1. Emptying the input and letting the timer fire leaves the
  index at 1 over an empty list; so does a fetch that rejects.
\<close>

theorem highlighted_index_survives_emptied_results:
  "length (results secondHighlighted) = 2 \<and> selectedIndex secondHighlighted = 1
   \<and> results (run defaultProps [Change [], Tick 700] secondHighlighted) = []
   \<and> selectedIndex (run defaultProps [Change [], Tick 700] secondHighlighted) = 1
   \<and> results failedFetch = []
   \<and> selectedIndex failedFetch = 1"
  by (simp add: failedFetch_def secondHighlighted_def engine_defs)


section \<open>A fetch that fails\<close>

text \<open>
  What the \<^verbatim>\<open>catch\<close> and \<^verbatim>\<open>finally\<close> blocks do and what they leave alone: the
  result list is emptied, the error is the fixed text, the loading flag is cleared and
  \<^verbatim>\<open>onError\<close>, when supplied, receives the error; the open flag and the highlighted
  index keep their values.
\<close>

lemma rejected_effects:
  "results (handleSearch_settled p r (Rejected err) s) = []
   \<and> error (handleSearch_settled p r (Rejected err) s)
       = Some ''Failed to fetch search results''
   \<and> \<not> isLoading (handleSearch_settled p r (Rejected err) s)
   \<and> (hasOnError p \<longrightarrow>
        errorCalls (handleSearch_settled p r (Rejected err) s) = errorCalls s @ [toError err])
   \<and> isOpen (handleSearch_settled p r (Rejected err) s) = isOpen s
   \<and> selectedIndex (handleSearch_settled p r (Rejected err) s) = selectedIndex s"
  by (simp add: handleSearch_settled_def)

text \<open>
  C3: when the fetch strategy rejects, the engine clears the result set, closes the
  dropdown, shows a generic error, reports the causal error to \<^verbatim>\<open>onError\<close> and clears
  the loading flag. All of this holds in the code except the closing of the dropdown: in
  \<open>secondHighlighted\<close> the dropdown is open with two results; after the next fetch
  rejects (\<open>failedFetch\<close>) the results are gone, the error is set, the callback has the
  error, loading is off, and the dropdown is still open.
\<close>

theorem dropdown_stays_open_after_rejection:
  "isOpen secondHighlighted
   \<and> results failedFetch = []
   \<and> error failedFetch = Some ''Failed to fetch search results''
   \<and> errorCalls failedFetch = [Error ''Network error'']
   \<and> \<not> isLoading failedFetch
   \<and> isOpen failedFetch"
  by (simp add: failedFetch_def secondHighlighted_def engine_defs)


section \<open>Selection\<close>

text \<open>
  C4: selecting result \<open>i\<close>, by Enter while \<open>i\<close> is highlighted or by a click on the
  rendered result \<open>i\<close>, is \<^verbatim>\<open>handleSelectItem\<close> on exactly \<open>results[i]\<close>: the result
  set becomes empty, the dropdown closes, the highlighted index is \<open>-1\<close>, the query is
  the item's id, and the selection callback (when one is supplied) is called with
  \<open>results[i]\<close>.
\<close>

theorem selection_by_enter_or_click:
  assumes "i < length (results s)"
    and "(selectedIndex s = int i \<and> s' = step p (KeyDown Enter) s)
         \<or> (rendered i s \<and> s' = step p (Click i) s)"
  shows "s' = handleSelectItem p (results s ! i) s
       \<and> results s' = [] \<and> \<not> isOpen s' \<and> selectedIndex s' = - 1
       \<and> query s' = item_id (results s ! i)
       \<and> (hasOnSelect p \<longrightarrow> selectCalls s' = selectCalls s @ [results s ! i])"
proof -
  from assms have "s' = handleSelectItem p (results s ! i) s"
    by (auto simp: handleKeyDown_def)
  then show ?thesis
    by (simp add: handleSelectItem_def)
qed

theorem selection_by_enter_or_click_witness:
  "1 < length (results secondHighlighted) \<and> selectedIndex secondHighlighted = int 1
   \<and> hasOnSelect defaultProps
   \<and> results (step defaultProps (KeyDown Enter) secondHighlighted) = []
   \<and> \<not> isOpen (step defaultProps (KeyDown Enter) secondHighlighted)
   \<and> selectedIndex (step defaultProps (KeyDown Enter) secondHighlighted) = - 1
   \<and> query (step defaultProps (KeyDown Enter) secondHighlighted) = ''2''
   \<and> selectCalls (step defaultProps (KeyDown Enter) secondHighlighted) = [vue]"
proof -
  have h1: "1 < length (results secondHighlighted)"
    by (simp add: secondHighlighted_fields)
  have h2: "(selectedIndex secondHighlighted = int 1
             \<and> step defaultProps (KeyDown Enter) secondHighlighted
                 = step defaultProps (KeyDown Enter) secondHighlighted)
            \<or> (rendered 1 secondHighlighted
               \<and> step defaultProps (KeyDown Enter) secondHighlighted
                   = step defaultProps (Click 1) secondHighlighted)"
    by (simp add: secondHighlighted_fields)
  have h3: "hasOnSelect defaultProps"
    by (simp add: defaultProps_def)
  show ?thesis
    using h1 h3 selection_by_enter_or_click [OF h1 h2]
    by (simp add: secondHighlighted_fields handleSelectItem_def vue_def mk_def)
qed


section \<open>Debouncing\<close>

subsection \<open>At most one pending timeout\<close>

lemma handleSearch_timers:
  "timers (handleSearch p q s) = timers s"
  "debounceTimer (handleSearch p q s) = debounceTimer s"
  by (simp_all add: handleSearch_def)

lemma foldl_handleSearch_timers:
  "timers (foldl (\<lambda>s' (h, d, v). handleSearch p v s') s ts) = timers s
   \<and> debounceTimer (foldl (\<lambda>s' (h, d, v). handleSearch p v s') s ts) = debounceTimer s"
  by (induction ts arbitrary: s) (auto simp: handleSearch_timers)

lemma advance_timers:
  "timers (advance p t s) = filter (\<lambda>(h, d, v). \<not> d \<le> t) (timers s)"
  "debounceTimer (advance p t s) = debounceTimer s"
  by (simp_all add: advance_def foldl_handleSearch_timers)

text \<open>Each keystroke cancels the pending timeout and leaves exactly its own.\<close>

lemma handleInputChange_debounce_inv:
  assumes "debounce_inv s"
  shows "debounce_inv (handleInputChange p v s)
       \<and> length (timers (handleInputChange p v s)) = 1"
  using assms
  by (auto simp: debounce_inv_def handleInputChange_def setTimeout_def clearTimeout_def Let_def
      split: list.splits option.splits)

lemma debounce_inv_frame:
  "timers s' = timers s \<Longrightarrow> debounceTimer s' = debounceTimer s
   \<Longrightarrow> debounce_inv s' = debounce_inv s"
  by (simp add: debounce_inv_def split: list.splits prod.splits)

lemma step_debounce_inv:
  assumes "debounce_inv s"
  shows "debounce_inv (step p e s)"
proof (cases e)
  case (Tick t)
  then show ?thesis
    using assms by (auto simp: debounce_inv_def advance_timers split: list.splits)
next
  case (Change v)
  then show ?thesis
    using assms by (simp add: handleInputChange_debounce_inv)
next
  case (KeyDown k)
  have "debounce_inv (handleKeyDown p k s) = debounce_inv s"
    by (rule debounce_inv_frame; cases k; simp add: handleKeyDown_def handleSelectItem_def)
  with KeyDown assms show ?thesis by simp
next
  case (MouseEnter i)
  have "debounce_inv (step p (MouseEnter i) s) = debounce_inv s"
    by (rule debounce_inv_frame) simp_all
  with MouseEnter assms show ?thesis by simp
next
  case (Click i)
  have "debounce_inv (step p (Click i) s) = debounce_inv s"
    by (rule debounce_inv_frame) (simp_all add: handleSelectItem_def)
  with Click assms show ?thesis by simp
next
  case ClearClick
  have "debounce_inv (step p ClearClick s) = debounce_inv s"
    by (rule debounce_inv_frame) (simp_all add: handleClear_def focusInput_def onFocus_def)
  with ClearClick assms show ?thesis by simp
next
  case Focus
  have "debounce_inv (step p Focus s) = debounce_inv s"
    by (rule debounce_inv_frame) (simp_all add: onFocus_def)
  with Focus assms show ?thesis by simp
next
  case Blur
  have "debounce_inv (step p Blur s) = debounce_inv s"
    by (rule debounce_inv_frame) simp_all
  with Blur assms show ?thesis by simp
next
  case ClickOutside
  have "debounce_inv (step p ClickOutside s) = debounce_inv s"
    by (rule debounce_inv_frame) simp_all
  with ClickOutside assms show ?thesis by simp
next
  case (Settle r out)
  have "debounce_inv (step p (Settle r out) s) = debounce_inv s"
    by (rule debounce_inv_frame; cases out; simp add: handleSearch_settled_def)
  with Settle assms show ?thesis by simp
qed

lemma run_debounce_inv: "debounce_inv s \<Longrightarrow> debounce_inv (run p es s)"
  by (induction es arbitrary: s) (simp_all add: step_debounce_inv)

lemma reachable_debounce_inv: "debounce_inv (run p es initial)"
  by (rule run_debounce_inv) (simp add: debounce_inv_def initial_def)

subsection \<open>A burst of keystrokes\<close>

lemma keystroke_pending:
  assumes "timers s = [(h, due, v)]" and "debounceTimer s = Some h" and "t < due"
  shows "timers (handleInputChange p v' (advance p t s))
           = [(nextTimer s, max (now s) t + validDebounceMs p, v')]"
    and "debounceTimer (handleInputChange p v' (advance p t s)) = Some (nextTimer s)"
    and "now (handleInputChange p v' (advance p t s)) = max (now s) t"
    and "fetchCalls (handleInputChange p v' (advance p t s)) = fetchCalls s"
  using assms
  by (simp_all add: handleInputChange_def advance_def clearTimeout_def setTimeout_def)

lemma keystroke_idle:
  assumes "timers s = []"
  shows "timers (handleInputChange p v' (advance p t s))
           = [(nextTimer s, max (now s) t + validDebounceMs p, v')]"
    and "debounceTimer (handleInputChange p v' (advance p t s)) = Some (nextTimer s)"
    and "now (handleInputChange p v' (advance p t s)) = max (now s) t"
    and "fetchCalls (handleInputChange p v' (advance p t s)) = fetchCalls s"
  using assms
  by (simp_all add: handleInputChange_def advance_def clearTimeout_def setTimeout_def Let_def
      split: option.splits)

lemma keystrokes_burst:
  assumes "timers s = [(h, t + validDebounceMs p, v)]" and "debounceTimer s = Some h"
    and "now s = t" and "burst (validDebounceMs p) t ks"
  shows "(\<exists>h'. timers (keystrokes p ks s)
               = [(h', fst (last ((t, v) # ks)) + validDebounceMs p, snd (last ((t, v) # ks)))]
             \<and> debounceTimer (keystrokes p ks s) = Some h')
         \<and> fetchCalls (keystrokes p ks s) = fetchCalls s"
  using assms
proof (induction ks arbitrary: s h t v)
  case Nil
  then show ?case by simp
next
  case (Cons k ks)
  obtain t' v' where k: "k = (t', v')" by (cases k)
  let ?s = "handleInputChange p v' (advance p t' s)"
  from Cons.prems k have le: "t \<le> t'" and lt: "t' < t + validDebounceMs p"
    and rest: "burst (validDebounceMs p) t' ks"
    by simp_all
  have now': "now ?s = t'"
    using keystroke_pending(3) [OF Cons.prems(1) Cons.prems(2) lt] Cons.prems(3) le by simp
  have tm: "timers ?s = [(nextTimer s, t' + validDebounceMs p, v')]"
    using keystroke_pending(1) [OF Cons.prems(1) Cons.prems(2) lt] Cons.prems(3) le by simp
  have db: "debounceTimer ?s = Some (nextTimer s)"
    by (rule keystroke_pending(2) [OF Cons.prems(1) Cons.prems(2) lt])
  have fc: "fetchCalls ?s = fetchCalls s"
    by (rule keystroke_pending(4) [OF Cons.prems(1) Cons.prems(2) lt])
  from Cons.IH [OF tm db now' rest] fc k show ?case by simp
qed

lemma advance_single:
  assumes "timers s = [(h, due, v)]"
  shows "fetchCalls (advance p t s)
           = (if due \<le> t \<and> validMinQueryLength p \<le> int (length v)
              then fetchCalls s @ [(v, validMaxResults p)] else fetchCalls s)"
  using assms by (simp add: advance_def handleSearch_def)

text \<open>
  C5, as stated: for any burst of keystrokes, each within the debounce delay of the one
  before, the fetch strategy is invoked exactly once, with the final keystroke's value.
  This fails when the final value is shorter than the minimum query length: the user
  types \<open>a\<close> at time 0 and deletes it at time 100 (delay 300, minimum length 1); when the
  timer fires the guard of \<^verbatim>\<open>handleSearch\<close> returns and no fetch is made at all.
\<close>

theorem burst_ending_below_minimum_fetches_nothing:
  "burst (validDebounceMs defaultProps) 0 [(100, [])]
   \<and> fetchCalls (advance defaultProps 400
        (keystrokes defaultProps [(0, ''a''), (100, [])] (initial :: searchEngine))) = []"
  by (simp add: engine_defs)

text \<open>
  C5, amended: take a state with no pending timeout and a burst of keystrokes
  \<open>(t1, v1), ..., (tn, vn)\<close>, each less than the debounce delay after the one before.
  During the burst no fetch is made, and each keystroke cancels the pending timeout, so
  that after the burst exactly one timeout is pending, due at \<open>tn + delay\<close> with the value
  \<open>vn\<close>. Before that time nothing is fetched. Once it has passed, the fetch strategy has
  been invoked exactly once, with the query \<open>vn\<close> and the clamped limit, when \<open>vn\<close> has at
  least the minimum query length, and not at all when \<open>vn\<close> is shorter.
\<close>

theorem debounce_coalescing:
  assumes "timers s = []" and "now s \<le> t1" and "burst (validDebounceMs p) t1 ks"
    and "s' = keystrokes p ((t1, v1) # ks) s" and "(tn, vn) = last ((t1, v1) # ks)"
  shows "fetchCalls s' = fetchCalls s
       \<and> (\<exists>h. timers s' = [(h, tn + validDebounceMs p, vn)] \<and> debounceTimer s' = Some h)
       \<and> (t < tn + validDebounceMs p \<longrightarrow> fetchCalls (advance p t s') = fetchCalls s)
       \<and> (tn + validDebounceMs p \<le> t \<and> validMinQueryLength p \<le> int (length vn) \<longrightarrow>
            fetchCalls (advance p t s') = fetchCalls s @ [(vn, validMaxResults p)])
       \<and> (tn + validDebounceMs p \<le> t \<and> int (length vn) < validMinQueryLength p \<longrightarrow>
            fetchCalls (advance p t s') = fetchCalls s)"
proof -
  let ?s1 = "handleInputChange p v1 (advance p t1 s)"
  have tm: "timers ?s1 = [(nextTimer s, t1 + validDebounceMs p, v1)]"
    using keystroke_idle(1) [OF assms(1)] assms(2) by simp
  have db: "debounceTimer ?s1 = Some (nextTimer s)"
    by (rule keystroke_idle(2) [OF assms(1)])
  have nw: "now ?s1 = t1"
    using keystroke_idle(3) [OF assms(1)] assms(2) by simp
  have fc: "fetchCalls ?s1 = fetchCalls s"
    by (rule keystroke_idle(4) [OF assms(1)])
  have s': "s' = keystrokes p ks ?s1"
    using assms(4) by simp
  have lst: "fst (last ((t1, v1) # ks)) = tn" "snd (last ((t1, v1) # ks)) = vn"
    using assms(5) by (metis fst_conv, metis snd_conv)
  from keystrokes_burst [OF tm db nw assms(3)] s' lst fc
  obtain h where one: "timers s' = [(h, tn + validDebounceMs p, vn)]"
    and ref: "debounceTimer s' = Some h" and same: "fetchCalls s' = fetchCalls s"
    by auto
  from advance_single [OF one, of p t] same ref one show ?thesis
    by auto
qed

theorem debounce_coalescing_witness:
  "timers (initial :: searchEngine) = [] \<and> now (initial :: searchEngine) \<le> 0
   \<and> burst (validDebounceMs defaultProps) 0 [(100, ''re''), (250, ''rea'')]
   \<and> fetchCalls (advance defaultProps 550
        (keystrokes defaultProps [(0, ''r''), (100, ''re''), (250, ''rea'')]
           (initial :: searchEngine))) = [(''rea'', Num 10)]"
proof -
  have h1: "timers (initial :: searchEngine) = []"
    and h2: "now (initial :: searchEngine) \<le> 0"
    by (simp_all add: initial_def)
  have h3: "burst (validDebounceMs defaultProps) 0 [(100, ''re''), (250, ''rea'')]"
    by (simp add: validDebounceMs_def defaultProps_def DEBOUNCE_MS_def)
  have h5: "(250, ''rea'') = last ((0, ''r'') # [(100, ''re''), (250, ''rea'')])"
    by simp
  have "fetchCalls (initial :: searchEngine) = []"
    by (simp add: initial_def)
  with debounce_coalescing [OF h1 h2 h3 refl h5, of 550] h1 h2 h3 show ?thesis
    by (simp add: validDebounceMs_def validMinQueryLength_def validMaxResults_def
        defaultProps_def DEBOUNCE_MS_def MIN_QUERY_LENGTH_def MAX_RESULTS_def)
qed


section \<open>The guard on the query length\<close>

text \<open>
  C6: for a query strictly shorter than the minimum query length (1 by default)
  \<^verbatim>\<open>handleSearch\<close> does not call the fetch strategy: it only clears the result set,
  closes the dropdown and clears the error. No call is recorded, nothing is left pending
  and the loading flag is untouched; the same holds when the debounce timer fires with
  such a query.
\<close>

theorem minimum_length_guard:
  assumes "int (length q) < validMinQueryLength p"
  shows "handleSearch p q s = s\<lparr>results := [], isOpen := False, error := None\<rparr>
       \<and> fetchCalls (handleSearch p q s) = fetchCalls s
       \<and> inflight (handleSearch p q s) = inflight s
       \<and> isLoading (handleSearch p q s) = isLoading s
       \<and> results (handleSearch p q s) = []
       \<and> \<not> isOpen (handleSearch p q s)
       \<and> error (handleSearch p q s) = None
       \<and> (timers s = [(h, due, q)] \<longrightarrow> fetchCalls (advance p t s) = fetchCalls s)
       \<and> validMinQueryLength defaultProps = 1"
  using assms
  by (simp add: handleSearch_def advance_single validMinQueryLength_def defaultProps_def
      MIN_QUERY_LENGTH_def)

theorem minimum_length_guard_witness:
  "int (length []) < validMinQueryLength defaultProps
   \<and> fetchCalls secondHighlighted = [(''a'', Num 10)]
   \<and> fetchCalls (handleSearch defaultProps [] secondHighlighted) = [(''a'', Num 10)]
   \<and> results (handleSearch defaultProps [] secondHighlighted) = []
   \<and> \<not> isOpen (handleSearch defaultProps [] secondHighlighted)
   \<and> error (handleSearch defaultProps [] secondHighlighted) = None"
proof -
  have h: "int (length ([] :: string)) < validMinQueryLength defaultProps"
    by (simp add: validMinQueryLength_def defaultProps_def MIN_QUERY_LENGTH_def)
  have "fetchCalls secondHighlighted = [(''a'', Num 10)]"
    by (simp add: secondHighlighted_def engine_defs)
  with h minimum_length_guard [OF h, of secondHighlighted] show ?thesis
    by simp
qed


section \<open>Escape\<close>

text \<open>
  C7, as stated: Escape closes the dropdown, clears the result set and resets the
  highlighted index. The result set is not cleared: after a search for \<open>react\<close> has
  shown one item, Escape leaves that item in the result set.
\<close>

theorem escape_keeps_results:
  "isOpen (run defaultProps
       [Change ''react'', Tick 300, Settle 0 (Resolved [react])] initial)
   \<and> results (run defaultProps
       [Change ''react'', Tick 300, Settle 0 (Resolved [react]), KeyDown Escape] initial)
     = [react]
   \<and> [react] \<noteq> []"
  by (simp add: engine_defs)

text \<open>
  C7, amended: Escape closes the dropdown and resets the highlighted index to \<open>-1\<close>; it
  changes nothing else, so the result set is retained.
\<close>

theorem escape_closes_and_resets_index:
  "handleKeyDown p Escape s = s\<lparr>isOpen := False, selectedIndex := - 1\<rparr>
   \<and> \<not> isOpen (handleKeyDown p Escape s)
   \<and> selectedIndex (handleKeyDown p Escape s) = - 1
   \<and> results (handleKeyDown p Escape s) = results s"
  by (simp add: handleKeyDown_def)

theorem escape_closes_and_resets_index_witness:
  "isOpen secondHighlighted \<and> selectedIndex secondHighlighted = 1
   \<and> \<not> isOpen (handleKeyDown defaultProps Escape secondHighlighted)
   \<and> selectedIndex (handleKeyDown defaultProps Escape secondHighlighted) = - 1
   \<and> results (handleKeyDown defaultProps Escape secondHighlighted) = [react, vue]"
  using escape_closes_and_resets_index [of defaultProps secondHighlighted]
  by (simp add: secondHighlighted_fields)


section \<open>Clamped configuration\<close>

text \<open>
  On integers the clamps work: the limit is \<^verbatim>\<open>maxResults\<close> clamped into 1..100, and it
  is the limit of every call of the fetch strategy; a negative debounce delay becomes 0
  and any other delay is unchanged.
\<close>

lemma clamp_on_integers:
  "maxResults p = Num n \<Longrightarrow> validMaxResults p = Num (max 1 (min n 100))"
  "maxResults p = Num n \<Longrightarrow> inRange (validMaxResults p)"
  "0 \<le> validDebounceMs p"
  "debounceMs p < 0 \<Longrightarrow> validDebounceMs p = 0"
  "0 \<le> debounceMs p \<Longrightarrow> validDebounceMs p = debounceMs p"
  "validMinQueryLength p \<le> int (length q) \<Longrightarrow>
     fetchCalls (handleSearch p q s) = fetchCalls s @ [(q, validMaxResults p)]"
  by (auto simp: validMaxResults_def validDebounceMs_def handleSearch_def)

text \<open>
  C8: invalid configuration is clamped, never rejected; \<^verbatim>\<open>maxResults\<close> is clamped
  into 1..100 and the clamped value is the limit passed to the fetch strategy. The code
  validates with \<^verbatim>\<open>Math.max(1, Math.min(maxResults, 100))\<close>, which does not clamp
  \<^verbatim>\<open>NaN\<close>: with \<^verbatim>\<open>maxResults = NaN\<close> the validated limit is \<^verbatim>\<open>NaN\<close>, outside 1..100,
  and the fetch strategy is called with it.
\<close>

theorem maxResults_NaN_is_not_clamped:
  "validMaxResults (defaultProps\<lparr>maxResults := NaN\<rparr>) = NaN
   \<and> \<not> inRange (validMaxResults (defaultProps\<lparr>maxResults := NaN\<rparr>))
   \<and> fetchCalls (handleSearch (defaultProps\<lparr>maxResults := NaN\<rparr>) ''a''
        (initial :: searchEngine)) = [(''a'', NaN)]"
  by (simp add: validMaxResults_def handleSearch_def validMinQueryLength_def defaultProps_def
      MIN_QUERY_LENGTH_def initial_def)


section \<open>The mock search\<close>

lemma includesStr_sublist: "includesStr t p = sublist p t"
  by (induction t) (auto simp: sublist_Cons_right)

lemma toLowerCase_Nil_iff: "toLowerCase s = [] \<longleftrightarrow> s = []"
  by (simp add: toLowerCase_def)

text \<open>
  For every limit other than 0, an omitted one included, \<open>searchItems\<close> is the search the
  specification describes.
\<close>

lemma searchItems_agrees:
  "limit \<noteq> Some 0 \<Longrightarrow> searchItems q limit = searchItems_spec q limit"
  by (auto simp: searchItems_def searchItems_spec_def validLimit_def Let_def
      includesStr_sublist toLowerCase_Nil_iff min_def max_def split: option.splits)

text \<open>
  C9: \<open>searchItems(query, limit)\<close> returns the matching mock items, in order, cut to the
  limit clamped into 1..100. At the limit 0 the code does something else: 0 is falsy, so
  \<^verbatim>\<open>Number(limit) || 10\<close> turns it into 10 before the clamp. All eight mock items
  contain the letter \<open>a\<close>; \<open>searchItems('a', 0)\<close> returns all eight, where the clamped
  limit 1 gives the first item alone.
\<close>

theorem searchItems_limit_zero:
  "searchItems ''a'' (Some 0) = MOCK_ITEMS \<and> length MOCK_ITEMS = 8
   \<and> searchItems_spec ''a'' (Some 0) = [hd MOCK_ITEMS]"
  by code_simp


section \<open>The clear control\<close>

text \<open>
  What \<^verbatim>\<open>handleClear\<close> does in every state: the query and the result set are emptied,
  the highlighted index is \<open>-1\<close>, the error is untouched and the input holds the focus.
  The dropdown ends closed only when the input held the focus already (or the query was
  empty); otherwise the focus event opens it.
\<close>

lemma handleClear_effects:
  "query (handleClear s) = []"
  "results (handleClear s) = []"
  "selectedIndex (handleClear s) = - 1"
  "error (handleClear s) = error s"
  "inputFocused (handleClear s)"
  "isOpen (handleClear s) = (\<not> inputFocused s \<and> query s \<noteq> [])"
  by (simp_all add: handleClear_def focusInput_def onFocus_def)

text \<open>
  C10: the clear control empties the query and the result set, closes the dropdown,
  resets the highlighted index and leaves the error unchanged. The code does all of
  this except closing the dropdown when the button is clicked with the mouse: in
  \<open>mouseDownOnClear\<close> the query is \<open>a\<close>, the input has lost the focus and the dropdown is
  closed; \<^verbatim>\<open>handleClear\<close> then queues \<^verbatim>\<open>setIsOpen(false)\<close> and calls \<^verbatim>\<open>focus()\<close>,
  whose focus event runs \<open>onFocus\<close> with the old query and queues \<^verbatim>\<open>setIsOpen(true)\<close>.
  The dropdown ends open, over an empty result set.
\<close>

theorem clear_click_opens_dropdown:
  "query mouseDownOnClear = ''a'' \<and> \<not> inputFocused mouseDownOnClear
   \<and> \<not> isOpen mouseDownOnClear
   \<and> isOpen (step defaultProps ClearClick mouseDownOnClear)
   \<and> results (step defaultProps ClearClick mouseDownOnClear) = []
   \<and> query (step defaultProps ClearClick mouseDownOnClear) = []
   \<and> error (step defaultProps ClearClick mouseDownOnClear) = error mouseDownOnClear"
  by (simp add: mouseDownOnClear_def engine_defs)

end
